theory Spec2Isabelle
  imports Complex_Main "HOL-Library.Sublist"
begin

section \<open>Values of the book service\<close>

text \<open>
  The service (\<^verbatim>\<open>src/server.js\<close>) keeps one JSON array of book objects in
  \<^verbatim>\<open>books.json\<close> and answers five HTTP requests over it. This theory embeds the two
  helpers \<^verbatim>\<open>readBooks\<close> and \<^verbatim>\<open>writeBooks\<close> and the five handlers as functions
  that take the state of the store file and return the new state with the response.

  A value that came out of \<^verbatim>\<open>JSON.parse\<close> is a \<open>json\<close>. A JavaScript variable or
  property that may be \<^verbatim>\<open>undefined\<close> is a \<open>json option\<close>, \<open>None\<close> standing for
  \<^verbatim>\<open>undefined\<close>: JSON text cannot carry \<^verbatim>\<open>undefined\<close>, so a key of a parsed body
  is present exactly when reading it does not give \<open>None\<close>. The payload of \<open>JNum\<close> is
  the numeric value of the parsed number; strings are lists of code units below 256.

  The store is taken to hold what the server writes: an array of objects with a numeric
  \<^verbatim>\<open>id\<close> of integer value. Other JSON texts that a hand could put in the file (an
  object, an array of strings, an id that is a string or has a fraction) are outside the
  types below, and so are the limits of the engine, such as the number of arguments that
  the spread in \<^verbatim>\<open>Math.max(...)\<close> can pass.
\<close>

datatype json =
    JNull
  | JBool bool
  | JNum rat
  | JStr string
  | JArr "json list"
  | JObj "(string \<times> json) list"

type_synonym jsvar = "json option"

text \<open>\<^verbatim>\<open>!v\<close> is \<open>\<not> truthy v\<close>: the falsy values are \<^verbatim>\<open>undefined\<close>, \<^verbatim>\<open>null\<close>,
  \<^verbatim>\<open>false\<close>, zero and the empty string.\<close>

fun truthy :: "jsvar \<Rightarrow> bool" where
  "truthy None = False"
| "truthy (Some JNull) = False"
| "truthy (Some (JBool b)) = b"
| "truthy (Some (JNum x)) = (x \<noteq> 0)"
| "truthy (Some (JStr s)) = (s \<noteq> [])"
| "truthy (Some (JArr xs)) = True"
| "truthy (Some (JObj kvs)) = True"

text \<open>\<^verbatim>\<open>typeof v === 'boolean'\<close>\<close>

fun typeof_boolean :: "jsvar \<Rightarrow> bool" where
  "typeof_boolean (Some (JBool b)) = True"
| "typeof_boolean v = False"

text \<open>
  A book object. The server assigns \<open>book_id\<close> (the source's \<^verbatim>\<open>id\<close>) itself, as a
  number with an integer value; the other three properties hold whatever a request
  body carried, and \<open>None\<close> where the object has no such key.
\<close>

record book =
  book_id :: int
  title :: jsvar
  author :: jsvar
  available :: jsvar

text \<open>
  The request body as \<^verbatim>\<open>express.json()\<close> leaves it in \<^verbatim>\<open>req.body\<close>: the
  parsed object (its own properties, keys distinct) or the parsed array. \<open>get_prop\<close> reads
  one of the three properties \<^verbatim>\<open>title\<close>, \<^verbatim>\<open>author\<close>, \<^verbatim>\<open>available\<close>, which no
  array has.

  When the middleware parsed no body (a request without JSON content, under Express 5),
  \<^verbatim>\<open>req.body\<close> is \<^verbatim>\<open>undefined\<close>. The handlers therefore take a \<open>body option\<close>,
  \<open>None\<close> for \<^verbatim>\<open>undefined\<close>; under Express 4 such a request has the empty object,
  \<open>Some (BodyObject [])\<close>.
\<close>

datatype body = BodyObject "(string \<times> json) list" | BodyArray "json list"

fun get_prop :: "body \<Rightarrow> string \<Rightarrow> jsvar" where
  "get_prop (BodyObject kvs) k = map_of kvs k"
| "get_prop (BodyArray xs) k = None"

datatype payload =
    Books "book list"
  | OneBook book
  | Deleted string book
  | Error string

type_synonym response = "nat \<times> payload"

section \<open>Numbers\<close>

text \<open>
  An id is a JavaScript number, that is an IEEE double, with an integer value. Integers
  up to \<open>2 ^ 53\<close> in magnitude are doubles and are added exactly; a larger sum is rounded
  to 53 significant bits, ties to the even significand. \<open>js_round\<close> is that rounding
  on integers (below the overflow threshold of doubles), \<open>js_add\<close> the source's
  \<^verbatim>\<open>+\<close> on two such numbers.
\<close>

function bit_length :: "int \<Rightarrow> nat" where
  "bit_length n = (if n \<le> 0 then 0 else Suc (bit_length (n div 2)))"
  by pat_completeness auto
termination
  by (relation "measure nat") auto

declare bit_length.simps [simp del]

definition js_round :: "int \<Rightarrow> int" where
  "js_round n =
     (let a = \<bar>n\<bar> in
      if a \<le> 2 ^ 53 then n
      else
        let e = bit_length a - 53;
            q = a div 2 ^ e;
            r = a mod 2 ^ e;
            m = (if 2 * r > 2 ^ e \<or> (2 * r = 2 ^ e \<and> odd q) then q + 1 else q)
        in sgn n * (m * 2 ^ e))"

definition js_add :: "int \<Rightarrow> int \<Rightarrow> int" where
  "js_add x y = js_round (x + y)"

section \<open>parseInt\<close>

text \<open>
  \<^verbatim>\<open>parseInt(s)\<close> with no radix: leading white space is dropped, then an optional sign,
  then an optional \<^verbatim>\<open>0x\<close> or \<^verbatim>\<open>0X\<close> (which selects radix 16); the longest run of
  digits of the radix that follows is the number, and whatever comes after it is
  ignored. With no digit there the result is \<^verbatim>\<open>NaN\<close>, here \<open>None\<close>, and
  \<^verbatim>\<open>isNaN\<close> is the test for \<open>None\<close>. The value is a number, hence rounded as
  above. White space is the white space and line terminators of the language among the
  code units below 256.
\<close>

definition is_space :: "char \<Rightarrow> bool" where
  "is_space c = (of_char c \<in> {9, 10, 11, 12, 13, 32, 160 :: int})"

definition digit_val :: "char \<Rightarrow> int option" where
  "digit_val c =
     (let k = of_char c :: int in
      if 48 \<le> k \<and> k \<le> 57 then Some (k - 48)
      else if 97 \<le> k \<and> k \<le> 122 then Some (k - 87)
      else if 65 \<le> k \<and> k \<le> 90 then Some (k - 55)
      else None)"

definition is_digit :: "int \<Rightarrow> char \<Rightarrow> bool" where
  "is_digit R c = (case digit_val c of None \<Rightarrow> False | Some v \<Rightarrow> v < R)"

definition digits_value :: "int \<Rightarrow> string \<Rightarrow> int" where
  "digits_value R Z = foldl (\<lambda>acc c. acc * R + (case digit_val c of None \<Rightarrow> 0 | Some v \<Rightarrow> v)) 0 Z"

fun strip_sign :: "string \<Rightarrow> int \<times> string" where
  "strip_sign (c # cs) =
     (if c = CHR ''-'' then (- 1, cs) else if c = CHR ''+'' then (1, cs) else (1, c # cs))"
| "strip_sign [] = (1, [])"

fun strip_prefix :: "string \<Rightarrow> int \<times> string" where
  "strip_prefix (c # x # cs) =
     (if c = CHR ''0'' \<and> (x = CHR ''x'' \<or> x = CHR ''X'') then (16, cs) else (10, c # x # cs))"
| "strip_prefix cs = (10, cs)"

definition parseInt :: "string \<Rightarrow> int option" where
  "parseInt s =
     (let (sign, S1) = strip_sign (dropWhile is_space s);
          (R, S2) = strip_prefix S1;
          Z = takeWhile (is_digit R) S2
      in if Z = [] then None else Some (js_round (sign * digits_value R Z)))"

section \<open>The store file\<close>

text \<open>
  What \<^verbatim>\<open>fs.readFile\<close> followed by \<^verbatim>\<open>JSON.parse\<close> finds: no file, a file holding the
  JSON text of a collection, a file whose text \<^verbatim>\<open>JSON.parse\<close> rejects, or a file
  that cannot be read for another reason than its absence. \<open>writable\<close> says whether
  \<^verbatim>\<open>fs.writeFile\<close> succeeds; a write that fails leaves the file as it was. \<open>calls\<close>
  records the calls made to the file system, so that "no load" and "no save" can be
  stated.
\<close>

datatype file_state = Absent | Stored "book list" | Corrupt | Unreadable

datatype fs_call = ReadFile | WriteFile "book list"

datatype error = ENOENT | EOTHER | SyntaxError | WriteFailed | TypeError

record disk =
  content :: file_state
  writable :: bool
  calls :: "fs_call list"

definition readFile_parse :: "disk \<Rightarrow> disk \<times> (error + book list)" where
  "readFile_parse d =
     (let d1 = d\<lparr>calls := calls d @ [ReadFile]\<rparr> in
      case content d of
        Absent \<Rightarrow> (d1, Inl ENOENT)
      | Unreadable \<Rightarrow> (d1, Inl EOTHER)
      | Corrupt \<Rightarrow> (d1, Inl SyntaxError)
      | Stored bs \<Rightarrow> (d1, Inr bs))"

definition writeFile :: "disk \<Rightarrow> book list \<Rightarrow> disk \<times> (error + unit)" where
  "writeFile d bs =
     (let d1 = d\<lparr>calls := calls d @ [WriteFile bs]\<rparr> in
      if writable d then (d1\<lparr>content := Stored bs\<rparr>, Inr ()) else (d1, Inl WriteFailed))"

definition readBooks :: "disk \<Rightarrow> disk \<times> (error + book list)" where
  "readBooks d =
     (case readFile_parse d of
        (d1, Inr bs) \<Rightarrow> (d1, Inr bs)
      | (d1, Inl e) \<Rightarrow>
          if e = ENOENT then
            (case writeFile d1 [] of
               (d2, Inr u) \<Rightarrow> (d2, Inr [])
             | (d2, Inl e') \<Rightarrow> (d2, Inl e'))
          else (d1, Inl e))"

definition writeBooks :: "disk \<Rightarrow> book list \<Rightarrow> disk \<times> (error + unit)" where
  "writeBooks d books = writeFile d books"

section \<open>The handlers\<close>

text \<open>
  \<^verbatim>\<open>const { title, author, available } = req.body\<close>: on \<^verbatim>\<open>undefined\<close> the
  destructuring throws a \<^verbatim>\<open>TypeError\<close>, which the handler's \<^verbatim>\<open>catch\<close> answers.
\<close>

definition destructure :: "body option \<Rightarrow> error + jsvar \<times> jsvar \<times> jsvar" where
  "destructure req_body =
     (case req_body of
        None \<Rightarrow> Inl TypeError
      | Some b \<Rightarrow> Inr (get_prop b ''title'', get_prop b ''author'', get_prop b ''available''))"

fun findIndex :: "('a \<Rightarrow> bool) \<Rightarrow> 'a list \<Rightarrow> nat option" where
  "findIndex P [] = None"
| "findIndex P (x # xs) = (if P x then Some 0 else map_option Suc (findIndex P xs))"

definition get_books :: "disk \<Rightarrow> disk \<times> response" where
  "get_books d =
     (case readBooks d of
        (d1, Inr books) \<Rightarrow> (d1, (200, Books books))
      | (d1, Inl e) \<Rightarrow> (d1, (500, Error ''Failed to read books data'')))"

definition get_books_available :: "disk \<Rightarrow> disk \<times> response" where
  "get_books_available d =
     (case readBooks d of
        (d1, Inr books) \<Rightarrow>
          (let availableBooks = filter (\<lambda>book. available book = Some (JBool True)) books
           in (d1, (200, Books availableBooks)))
      | (d1, Inl e) \<Rightarrow> (d1, (500, Error ''Failed to read books data'')))"

text \<open>\<^verbatim>\<open>books.length > 0 ? Math.max(...books.map(book => book.id)) + 1 : 1\<close>\<close>

definition newId :: "book list \<Rightarrow> int" where
  "newId books =
     (case map book_id books of
        [] \<Rightarrow> 1
      | i # ids \<Rightarrow> js_add (fold max ids i) 1)"

definition post_books :: "disk \<Rightarrow> body option \<Rightarrow> disk \<times> response" where
  "post_books d req_body =
     (case destructure req_body of
        Inl e \<Rightarrow> (d, (500, Error ''Failed to create book''))
      | Inr (title', author', available') \<Rightarrow>
          if \<not> truthy title' \<or> \<not> truthy author' \<or> \<not> typeof_boolean available' then
            (d, (400, Error ''Title, author, and available (boolean) are required''))
          else
            case readBooks d of
              (d1, Inl e) \<Rightarrow> (d1, (500, Error ''Failed to create book''))
            | (d1, Inr books) \<Rightarrow>
                (let newBook = \<lparr>book_id = newId books, title = title', author = author',
                                available = available'\<rparr>;
                     books' = books @ [newBook]
                 in case writeBooks d1 books' of
                      (d2, Inl e) \<Rightarrow> (d2, (500, Error ''Failed to create book''))
                    | (d2, Inr u) \<Rightarrow> (d2, (201, OneBook newBook))))"

text \<open>The three conditional assignments of the update handler, on the record found.\<close>

definition assign_fields :: "jsvar \<Rightarrow> jsvar \<Rightarrow> jsvar \<Rightarrow> book \<Rightarrow> book" where
  "assign_fields t a v bk =
     (let bk1 = (if t \<noteq> None then bk\<lparr>title := t\<rparr> else bk);
          bk2 = (if a \<noteq> None then bk1\<lparr>author := a\<rparr> else bk1);
          bk3 = (if v \<noteq> None then bk2\<lparr>available := v\<rparr> else bk2)
      in bk3)"

text \<open>
  In the update handler \<^verbatim>\<open>parseInt\<close> comes first and cannot throw; the destructuring
  comes next, before the \<^verbatim>\<open>isNaN\<close> guard.
\<close>

definition put_books :: "disk \<Rightarrow> string \<Rightarrow> body option \<Rightarrow> disk \<times> response" where
  "put_books d idParam req_body =
     (let bookId = parseInt idParam in
      case destructure req_body of
        Inl e \<Rightarrow> (d, (500, Error ''Failed to update book''))
      | Inr (title', author', available') \<Rightarrow>
          (case bookId of
             None \<Rightarrow> (d, (400, Error ''Invalid book ID''))
           | Some n \<Rightarrow>
               (case readBooks d of
                  (d1, Inl e) \<Rightarrow> (d1, (500, Error ''Failed to update book''))
                | (d1, Inr books) \<Rightarrow>
                    (case findIndex (\<lambda>book. book_id book = n) books of
                       None \<Rightarrow> (d1, (404, Error ''Book not found''))
                     | Some bookIndex \<Rightarrow>
                         (let books' = books[bookIndex :=
                                         assign_fields title' author' available' (books ! bookIndex)]
                          in case writeBooks d1 books' of
                               (d2, Inl e) \<Rightarrow> (d2, (500, Error ''Failed to update book''))
                             | (d2, Inr u) \<Rightarrow> (d2, (200, OneBook (books' ! bookIndex))))))))"

definition delete_books :: "disk \<Rightarrow> string \<Rightarrow> disk \<times> response" where
  "delete_books d idParam =
     (case parseInt idParam of
        None \<Rightarrow> (d, (400, Error ''Invalid book ID''))
      | Some n \<Rightarrow>
          (case readBooks d of
             (d1, Inl e) \<Rightarrow> (d1, (500, Error ''Failed to delete book''))
           | (d1, Inr books) \<Rightarrow>
               (case findIndex (\<lambda>book. book_id book = n) books of
                  None \<Rightarrow> (d1, (404, Error ''Book not found''))
                | Some bookIndex \<Rightarrow>
                    (let deletedBook = books ! bookIndex;
                         books' = take bookIndex books @ drop (Suc bookIndex) books
                     in case writeBooks d1 books' of
                          (d2, Inl e) \<Rightarrow> (d2, (500, Error ''Failed to delete book''))
                        | (d2, Inr u) \<Rightarrow>
                            (d2, (200, Deleted ''Book deleted successfully'' deletedBook))))))"

text \<open>
  The routes that change the store, as \<^verbatim>\<open>app.post\<close>, \<^verbatim>\<open>app.put\<close> and
  \<^verbatim>\<open>app.delete\<close> register them, and the two that read it.
\<close>

datatype request =
    GetBooks
  | GetAvailable
  | Create "body option"
  | Update string "body option"
  | Delete string

fun handle :: "disk \<Rightarrow> request \<Rightarrow> disk \<times> response" where
  "handle d GetBooks = get_books d"
| "handle d GetAvailable = get_books_available d"
| "handle d (Create req_body) = post_books d req_body"
| "handle d (Update idParam req_body) = put_books d idParam req_body"
| "handle d (Delete idParam) = delete_books d idParam"

definition is_create :: "request \<Rightarrow> bool" where
  "is_create req = (case req of Create b \<Rightarrow> True | _ \<Rightarrow> False)"

section \<open>Reading of the specification: a path id that is an integer\<close>


section \<open>Sample stores and requests\<close>

definition dune :: book where
  "dune = \<lparr>book_id = 1, title = Some (JStr ''Dune''), author = Some (JStr ''Herbert''),
            available = Some (JBool True)\<rparr>"

definition emma :: book where
  "emma = \<lparr>book_id = 2, title = Some (JStr ''Emma''), author = Some (JStr ''Austen''),
            available = Some (JBool False)\<rparr>"

definition ulysses :: book where
  "ulysses = \<lparr>book_id = 12, title = Some (JStr ''Ulysses''), author = Some (JStr ''Joyce''),
               available = Some (JStr ''true'')\<rparr>"

definition walden :: book where
  "walden = \<lparr>book_id = 3, title = Some (JStr ''Walden''), author = Some (JStr ''Thoreau''),
              available = Some (JBool True)\<rparr>"

definition huge :: book where
  "huge = \<lparr>book_id = 9007199254740992, title = Some (JStr ''Ficciones''),
            author = Some (JStr ''Borges''), available = Some (JBool True)\<rparr>"

definition disk_with :: "book list \<Rightarrow> disk" where
  "disk_with books = \<lparr>content = Stored books, writable = True, calls = []\<rparr>"


definition new_book_body :: body where
  "new_book_body =
     BodyObject [(''title'', JStr ''Kindred''), (''author'', JStr ''Butler''),
                 (''available'', JBool True)]"

section \<open>Auxiliary facts\<close>

lemma js_round_exact: "\<bar>n\<bar> \<le> 2 ^ 53 \<Longrightarrow> js_round n = n"
  by (simp add: js_round_def)

lemma fold_max_Max: "fold max ids (i::int) = Max (set (i # ids))"
  by (simp only: Max.set_eq_fold)

lemma newId_Nil: "newId [] = 1"
  by (simp add: newId_def)

lemma newId_exact:
  assumes "books \<noteq> []"
    and "- (2 ^ 53) \<le> Max (set (map book_id books))"
    and "Max (set (map book_id books)) < 2 ^ 53"
  shows "newId books = Max (set (map book_id books)) + 1"
proof -
  obtain b bs where books: "books = b # bs"
    using assms(1) by (cases books) auto
  let ?m = "Max (set (map book_id books))"
  have "fold max (map book_id bs) (book_id b) = ?m"
    unfolding books by (simp only: list.map fold_max_Max)
  then have "newId books = js_round (?m + 1)"
    by (simp add: newId_def books js_add_def)
  moreover have "\<bar>?m + 1\<bar> \<le> 2 ^ 53"
    using assms(2,3) by linarith
  ultimately show ?thesis
    by (simp only: js_round_exact)
qed

lemma findIndex_None_iff: "findIndex P xs = None \<longleftrightarrow> (\<forall>x\<in>set xs. \<not> P x)"
  by (induction xs) auto

lemma findIndex_first:
  "i < length xs \<Longrightarrow> P (xs ! i) \<Longrightarrow> (\<forall>j<i. \<not> P (xs ! j)) \<Longrightarrow> findIndex P xs = Some i"
proof (induction xs arbitrary: i)
  case Nil
  then show ?case by simp
next
  case (Cons x xs)
  show ?case
  proof (cases i)
    case 0
    with Cons.prems show ?thesis by simp
  next
    case (Suc k)
    with Cons.prems have "\<not> P x" by auto
    moreover have "findIndex P xs = Some k"
      using Cons.prems Suc by (intro Cons.IH) auto
    ultimately show ?thesis using Suc by simp
  qed
qed

lemma readBooks_Stored:
  "content d = Stored bs \<Longrightarrow> readBooks d = (d\<lparr>calls := calls d @ [ReadFile]\<rparr>, Inr bs)"
  by (simp add: readBooks_def readFile_parse_def)




lemma writeBooks_writable:
  "writable d \<Longrightarrow>
   writeBooks d bs = (d\<lparr>content := Stored bs, calls := calls d @ [WriteFile bs]\<rparr>, Inr ())"
  by (simp add: writeBooks_def writeFile_def)

lemma writeBooks_readonly:
  "\<not> writable d \<Longrightarrow> writeBooks d bs = (d\<lparr>calls := calls d @ [WriteFile bs]\<rparr>, Inl WriteFailed)"
  by (simp add: writeBooks_def writeFile_def)

lemma bit_length_above_2_53: "bit_length 9007199254740993 = 54"
  by (simp add: bit_length.simps)

lemma js_add_2_53: "js_add 9007199254740992 1 = 9007199254740992"
  by (simp add: js_add_def js_round_def bit_length_above_2_53)

lemma newId_huge: "newId [huge] = 9007199254740992"
  by (simp add: newId_def huge_def js_add_2_53)




lemma parseInt_1: "parseInt ''1'' = Some 1"
  by (simp add: parseInt_def is_space_def is_digit_def digit_val_def digits_value_def js_round_def)

lemma parseInt_2: "parseInt ''2'' = Some 2"
  by (simp add: parseInt_def is_space_def is_digit_def digit_val_def digits_value_def js_round_def)

lemma parseInt_7: "parseInt ''7'' = Some 7"
  by (simp add: parseInt_def is_space_def is_digit_def digit_val_def digits_value_def js_round_def)

lemma sample_ids:
  "book_id dune = 1" "book_id emma = 2" "book_id ulysses = 12" "book_id walden = 3"
  by (simp_all add: dune_def emma_def ulysses_def walden_def)

lemma assign_fields_eq:
  "assign_fields (get_prop b ''title'') (get_prop b ''author'') (get_prop b ''available'') old =
     \<lparr>book_id = book_id old,
      title = (case get_prop b ''title'' of None \<Rightarrow> title old | Some v \<Rightarrow> Some v),
      author = (case get_prop b ''author'' of None \<Rightarrow> author old | Some v \<Rightarrow> Some v),
      available = (case get_prop b ''available'' of None \<Rightarrow> available old | Some v \<Rightarrow> Some v)\<rparr>"
  by (cases old) (simp add: assign_fields_def split: option.splits)

lemma destructure_Some:
  "destructure (Some b) = Inr (get_prop b ''title'', get_prop b ''author'', get_prop b ''available'')"
  by (simp add: destructure_def)

lemma destructure_None: "destructure None = Inl TypeError"
  by (simp add: destructure_def)

lemma post_books_None: "post_books d None = (d, (500, Error ''Failed to create book''))"
  by (simp add: post_books_def destructure_None)

lemma put_books_None: "put_books d p None = (d, (500, Error ''Failed to update book''))"
  by (simp add: put_books_def destructure_None)





lemma assign_fields_id: "book_id (assign_fields t a v bk) = book_id bk"
  by (simp add: assign_fields_def Let_def)

lemma newId_fresh:
  assumes "books \<noteq> [] \<longrightarrow>
           - (2 ^ 53) \<le> Max (set (map book_id books)) \<and> Max (set (map book_id books)) < 2 ^ 53"
  shows "newId books \<notin> book_id ` set books"
proof (cases "books = []")
  case True
  then show ?thesis by simp
next
  case False
  with assms have "newId books = Max (set (map book_id books)) + 1"
    by (simp add: newId_exact)
  moreover have "newId books \<le> Max (set (map book_id books))" if "newId books \<in> book_id ` set books"
    using that by (intro Max_ge) auto
  ultimately show ?thesis by linarith
qed

lemma post_books_content:
  assumes "content d = Stored books"
  shows "content (fst (post_books d req_body)) = Stored books
       \<or> (\<exists>b. req_body = Some b
             \<and> content (fst (post_books d req_body)) =
                 Stored (books @ [\<lparr>book_id = newId books, title = get_prop b ''title'',
                                   author = get_prop b ''author'',
                                   available = get_prop b ''available''\<rparr>]))"
proof (cases req_body)
  case None
  then show ?thesis using assms by (simp add: post_books_None)
next
  case (Some b)
  show ?thesis
  proof (cases "writable d")
    case True
    then show ?thesis
      using assms Some
      by (simp add: post_books_def destructure_Some Let_def readBooks_Stored writeBooks_writable)
  next
    case False
    then show ?thesis
      using assms Some
      by (simp add: post_books_def destructure_Some Let_def readBooks_Stored writeBooks_readonly)
  qed
qed

lemma put_books_content:
  assumes "content d = Stored books"
  shows "content (fst (put_books d p req_body)) = Stored books
       \<or> (\<exists>i b. req_body = Some b
             \<and> findIndex (\<lambda>book. book_id book = the (parseInt p)) books = Some i
             \<and> content (fst (put_books d p req_body)) =
                 Stored (books[i := assign_fields (get_prop b ''title'') (get_prop b ''author'')
                                     (get_prop b ''available'') (books ! i)]))"
proof (cases req_body)
  case None
  then show ?thesis using assms by (simp add: put_books_None)
next
  case (Some b)
  show ?thesis
  proof (cases "writable d")
    case True
    then show ?thesis
      using assms Some
      by (simp add: put_books_def destructure_Some Let_def readBooks_Stored writeBooks_writable
          split: option.splits)
  next
    case False
    then show ?thesis
      using assms Some
      by (simp add: put_books_def destructure_Some Let_def readBooks_Stored writeBooks_readonly
          split: option.splits)
  qed
qed

lemma delete_books_content:
  assumes "content d = Stored books"
  shows "content (fst (delete_books d p)) = Stored books
       \<or> (\<exists>i. findIndex (\<lambda>book. book_id book = the (parseInt p)) books = Some i
             \<and> content (fst (delete_books d p)) = Stored (take i books @ drop (Suc i) books))"
proof (cases "writable d")
  case True
  then show ?thesis
    using assms
    by (simp add: delete_books_def Let_def readBooks_Stored writeBooks_writable split: option.splits)
next
  case False
  then show ?thesis
    using assms
    by (simp add: delete_books_def Let_def readBooks_Stored writeBooks_readonly split: option.splits)
qed

lemma map_id_update:
  "book_id r = book_id (books ! i) \<Longrightarrow> map book_id (books[i := r]) = map book_id books"
  by (cases "i < length books") (simp_all add: map_update list_update_same_conv list_update_beyond)

lemma distinct_remove_at:
  "distinct xs \<Longrightarrow> distinct (take i xs @ drop (Suc i) xs)"
  by (simp add: set_take_disj_set_drop_if_distinct)













section \<open>The read endpoints\<close>

text \<open>
  Claim C2. For every collection in the store, \<^verbatim>\<open>GET /books/available\<close> answers 200
  with exactly the records whose \<^verbatim>\<open>available\<close> is the boolean \<^verbatim>\<open>true\<close>, in the order
  they have in the collection, and leaves the collection as it was: the only call to the
  file system is the read.
\<close>

theorem C2_available_filter:
  assumes "content d = Stored books"
  shows "get_books_available d =
           (d\<lparr>calls := calls d @ [ReadFile]\<rparr>,
            (200, Books (filter (\<lambda>book. available book = Some (JBool True)) books)))
         \<and> content (fst (get_books_available d)) = Stored books
         \<and> subseq (filter (\<lambda>book. available book = Some (JBool True)) books) books
         \<and> set (filter (\<lambda>book. available book = Some (JBool True)) books) =
             {book \<in> set books. available book = Some (JBool True)}"
  using assms by (simp add: get_books_available_def readBooks_Stored)

text \<open>
  On a store of four books, one of them with the string \<^verbatim>\<open>"true"\<close> for
  \<^verbatim>\<open>available\<close>, the answer holds the two whose \<^verbatim>\<open>available\<close> is the boolean.
\<close>

theorem C2_available_filter_witness:
  "content (disk_with [dune, emma, ulysses, walden]) = Stored [dune, emma, ulysses, walden]
   \<and> get_books_available (disk_with [dune, emma, ulysses, walden]) =
       ((disk_with [dune, emma, ulysses, walden])\<lparr>calls := [ReadFile]\<rparr>,
        (200, Books [dune, walden]))"
  using C2_available_filter [of "disk_with [dune, emma, ulysses, walden]" "[dune, emma, ulysses, walden]"]
  by (simp add: disk_with_def dune_def emma_def ulysses_def walden_def)

section \<open>Create\<close>

text \<open>
  Claim C3. A create request whose \<^verbatim>\<open>title\<close> is absent or falsy, or whose
  \<^verbatim>\<open>author\<close> is absent or falsy, or whose \<^verbatim>\<open>available\<close> is not of type boolean, is
  to be answered 400 with the store as it was. The handler does so whenever the request
  has a parsed body: the state of the store comes back as it went in, neither the file
  nor the record of file-system calls changes, so no load and no save took place. A
  request without a parsed body has none of the three properties either, but the
  destructuring throws before the validation is reached, and the answer is 500 "Failed
  to create book", again with the store untouched.
\<close>

theorem C3_create_rejected:
  "(\<not> truthy (get_prop b ''title'') \<or> \<not> truthy (get_prop b ''author'')
      \<or> \<not> typeof_boolean (get_prop b ''available'')
    \<longrightarrow> post_books d (Some b) =
          (d, (400, Error ''Title, author, and available (boolean) are required'')))
   \<and> post_books d None = (d, (500, Error ''Failed to create book''))"
  by (auto simp add: post_books_def destructure_Some destructure_None)

text \<open>
  A body without \<^verbatim>\<open>title\<close>, a body whose \<^verbatim>\<open>author\<close> is the empty string, a body
  whose \<^verbatim>\<open>available\<close> is the string \<^verbatim>\<open>"true"\<close>, and a request without a body.
\<close>

theorem C3_create_rejected_witness:
  "\<not> truthy (get_prop (BodyObject [(''author'', JStr ''Butler''), (''available'', JBool True)]) ''title'')
   \<and> post_books (disk_with [dune])
        (Some (BodyObject [(''author'', JStr ''Butler''), (''available'', JBool True)])) =
       (disk_with [dune], (400, Error ''Title, author, and available (boolean) are required''))
   \<and> \<not> truthy (get_prop (BodyObject [(''title'', JStr ''Kindred''), (''author'', JStr []),
        (''available'', JBool True)]) ''author'')
   \<and> post_books (disk_with [dune])
        (Some (BodyObject [(''title'', JStr ''Kindred''), (''author'', JStr []),
                           (''available'', JBool True)])) =
       (disk_with [dune], (400, Error ''Title, author, and available (boolean) are required''))
   \<and> \<not> typeof_boolean (get_prop (BodyObject [(''title'', JStr ''Kindred''),
        (''author'', JStr ''Butler''), (''available'', JStr ''true'')]) ''available'')
   \<and> post_books (disk_with [dune])
        (Some (BodyObject [(''title'', JStr ''Kindred''), (''author'', JStr ''Butler''),
                           (''available'', JStr ''true'')])) =
       (disk_with [dune], (400, Error ''Title, author, and available (boolean) are required''))
   \<and> post_books (disk_with [dune]) None = (disk_with [dune], (500, Error ''Failed to create book''))"
  using
    C3_create_rejected [of "BodyObject [(''author'', JStr ''Butler''), (''available'', JBool True)]"
      "disk_with [dune]"]
    C3_create_rejected [of "BodyObject [(''title'', JStr ''Kindred''), (''author'', JStr []),
      (''available'', JBool True)]" "disk_with [dune]"]
    C3_create_rejected [of "BodyObject [(''title'', JStr ''Kindred''), (''author'', JStr ''Butler''),
      (''available'', JStr ''true'')]" "disk_with [dune]"]
  by simp

text \<open>
  Claim C1, as the source has it. A create request that passes validation, on a stored
  collection and a file system that accepts the write, gets the id 1 on an empty
  collection and otherwise the largest existing id plus one, provided that largest id
  lies in the range where adding one is exact for a JavaScript number, from \<open>- 2 ^ 53\<close>
  up to but not including \<open>2 ^ 53\<close>. The record made of that id and the body's
  \<^verbatim>\<open>title\<close>, \<^verbatim>\<open>author\<close> and \<^verbatim>\<open>available\<close> is appended at the end of the
  collection, the whole collection is written, and the answer is 201 with the record.
\<close>

theorem C1_create:
  assumes "truthy (get_prop b ''title'')"
    and "truthy (get_prop b ''author'')"
    and "typeof_boolean (get_prop b ''available'')"
    and "content d = Stored books"
    and "writable d"
    and "books \<noteq> [] \<longrightarrow>
           - (2 ^ 53) \<le> Max (set (map book_id books)) \<and> Max (set (map book_id books)) < 2 ^ 53"
  shows "post_books d (Some b) =
           (let newBook = \<lparr>book_id = (if books = [] then 1 else Max (set (map book_id books)) + 1),
                           title = get_prop b ''title'', author = get_prop b ''author'',
                           available = get_prop b ''available''\<rparr>
            in (d\<lparr>content := Stored (books @ [newBook]),
                   calls := calls d @ [ReadFile, WriteFile (books @ [newBook])]\<rparr>,
                (201, OneBook newBook)))"
proof -
  have id: "newId books = (if books = [] then 1 else Max (set (map book_id books)) + 1)"
    using assms(6) by (simp add: newId_Nil newId_exact)
  show ?thesis
    using assms(1-5)
    by (simp add: post_books_def destructure_Some Let_def readBooks_Stored writeBooks_writable id)
qed

text \<open>On a store whose ids are 2, 12 and 1, the new book gets the id 13.\<close>

theorem C1_create_witness:
  "truthy (get_prop new_book_body ''title'') \<and> truthy (get_prop new_book_body ''author'')
   \<and> typeof_boolean (get_prop new_book_body ''available'')
   \<and> content (disk_with [emma, ulysses, dune]) = Stored [emma, ulysses, dune]
   \<and> writable (disk_with [emma, ulysses, dune])
   \<and> Max (set (map book_id [emma, ulysses, dune])) = 12
   \<and> post_books (disk_with [emma, ulysses, dune]) (Some new_book_body) =
       (\<lparr>content = Stored [emma, ulysses, dune,
            \<lparr>book_id = 13, title = Some (JStr ''Kindred''), author = Some (JStr ''Butler''),
              available = Some (JBool True)\<rparr>],
         writable = True,
         calls = [ReadFile, WriteFile [emma, ulysses, dune,
            \<lparr>book_id = 13, title = Some (JStr ''Kindred''), author = Some (JStr ''Butler''),
              available = Some (JBool True)\<rparr>]]\<rparr>,
        (201, OneBook \<lparr>book_id = 13, title = Some (JStr ''Kindred''), author = Some (JStr ''Butler''),
              available = Some (JBool True)\<rparr>))"
  using C1_create [of new_book_body "disk_with [emma, ulysses, dune]" "[emma, ulysses, dune]"]
  by (simp add: sample_ids new_book_body_def disk_with_def Let_def)

text \<open>
  Claim C1 as written, with no bound on the ids, fails where the sum is not a double: on
  a collection whose largest id is \<open>2 ^ 53 = 9007199254740992\<close> the source's
  \<^verbatim>\<open>Math.max(...) + 1\<close> is \<open>2 ^ 53\<close> again, not \<open>2 ^ 53 + 1\<close>.
\<close>

theorem C1_counterexample:
  "snd (post_books (disk_with [huge]) (Some new_book_body)) =
     (201, OneBook \<lparr>book_id = 9007199254740992, title = Some (JStr ''Kindred''),
                     author = Some (JStr ''Butler''), available = Some (JBool True)\<rparr>)
   \<and> (9007199254740992 :: int) \<noteq> Max (set (map book_id [huge])) + 1"
proof -
  have "(9007199254740992 :: int) \<noteq> Max (set (map book_id [huge])) + 1"
    by (simp add: huge_def)
  moreover have "snd (post_books (disk_with [huge]) (Some new_book_body)) =
     (201, OneBook \<lparr>book_id = 9007199254740992, title = Some (JStr ''Kindred''),
                     author = Some (JStr ''Butler''), available = Some (JBool True)\<rparr>)"
    by (simp add: post_books_def destructure_Some new_book_body_def disk_with_def readBooks_Stored
        writeBooks_writable newId_huge Let_def)
  ultimately show ?thesis by simp
qed

section \<open>Update and delete\<close>

text \<open>
  Claim C4. An update whose path id is the id of a record of the stored collection (the
  first such record, at index \<open>i\<close>) is to overwrite on that record exactly the
  properties among \<^verbatim>\<open>title\<close>, \<^verbatim>\<open>author\<close>, \<^verbatim>\<open>available\<close> that the body has, with
  the body's value whatever it is (\<^verbatim>\<open>false\<close>, the empty string and \<^verbatim>\<open>null\<close>
  included), keep the others, write the collection and answer 200 with the updated
  record. The handler does so for every parsed body. The same update without a parsed
  body, which supplies no property at all, is answered 500 "Failed to update book" and
  nothing is read or written: the destructuring throws first.
\<close>

theorem C4_update:
  assumes "parseInt p = Some n"
    and "content d = Stored books"
    and "writable d"
    and "i < length books"
    and "book_id (books ! i) = n"
    and "\<forall>j<i. book_id (books ! j) \<noteq> n"
  shows "put_books d p (Some b) =
           (let old = books ! i;
                new = \<lparr>book_id = book_id old,
                  title = (case get_prop b ''title'' of None \<Rightarrow> title old | Some v \<Rightarrow> Some v),
                  author = (case get_prop b ''author'' of None \<Rightarrow> author old | Some v \<Rightarrow> Some v),
                  available = (case get_prop b ''available'' of None \<Rightarrow> available old | Some v \<Rightarrow> Some v)\<rparr>
            in (d\<lparr>content := Stored (books[i := new]),
                   calls := calls d @ [ReadFile, WriteFile (books[i := new])]\<rparr>,
                (200, OneBook new)))
       \<and> put_books d p None = (d, (500, Error ''Failed to update book''))"
proof -
  have "findIndex (\<lambda>book. book_id book = n) books = Some i"
    using assms(4-6) by (intro findIndex_first) auto
  then show ?thesis
    using assms(1-4)
    by (simp add: put_books_def destructure_Some destructure_None Let_def readBooks_Stored
        writeBooks_writable assign_fields_eq)
qed

text \<open>
  A body with \<^verbatim>\<open>title: null\<close> and \<^verbatim>\<open>available: false\<close> and no \<^verbatim>\<open>author\<close>: both
  falsy values are stored, the author stays. Without a body the answer is 500.
\<close>

theorem C4_update_witness:
  "parseInt ''1'' = Some 1
   \<and> content (disk_with [dune, emma]) = Stored [dune, emma]
   \<and> writable (disk_with [dune, emma])
   \<and> book_id ([dune, emma] ! 0) = 1
   \<and> put_books (disk_with [dune, emma]) ''1''
         (Some (BodyObject [(''title'', JNull), (''available'', JBool False)])) =
       (\<lparr>content = Stored [\<lparr>book_id = 1, title = Some JNull, author = Some (JStr ''Herbert''),
                               available = Some (JBool False)\<rparr>, emma],
         writable = True,
         calls = [ReadFile, WriteFile [\<lparr>book_id = 1, title = Some JNull,
                    author = Some (JStr ''Herbert''), available = Some (JBool False)\<rparr>, emma]]\<rparr>,
        (200, OneBook \<lparr>book_id = 1, title = Some JNull, author = Some (JStr ''Herbert''),
                        available = Some (JBool False)\<rparr>))
   \<and> put_books (disk_with [dune, emma]) ''1'' None =
       (disk_with [dune, emma], (500, Error ''Failed to update book''))"
  using C4_update [of "''1''" 1 "disk_with [dune, emma]" "[dune, emma]" 0
      "BodyObject [(''title'', JNull), (''available'', JBool False)]"]
  by (simp add: parseInt_1 sample_ids disk_with_def Let_def) (simp add: dune_def)

text \<open>
  Claim C5. An update or a delete whose parsed id is the id of no record of the stored
  collection is to be answered 404, the file keeping its content and nothing being
  saved. The delete handler does so, and the update handler does so for every parsed
  body: the only call to the file system is the read. An update without a parsed body
  is answered 500 "Failed to update book" before the collection is loaded, where the
  delete of the same id is answered 404.
\<close>

theorem C5_not_found:
  assumes "parseInt p = Some n"
    and "content d = Stored books"
    and "n \<notin> book_id ` set books"
  shows "put_books d p (Some b) = (d\<lparr>calls := calls d @ [ReadFile]\<rparr>, (404, Error ''Book not found''))
       \<and> delete_books d p = (d\<lparr>calls := calls d @ [ReadFile]\<rparr>, (404, Error ''Book not found''))
       \<and> put_books d p None = (d, (500, Error ''Failed to update book''))"
proof -
  have "findIndex (\<lambda>book. book_id book = n) books = None"
    using assms(3) by (auto simp: findIndex_None_iff)
  then show ?thesis
    using assms(1,2)
    by (simp add: put_books_def destructure_Some destructure_None delete_books_def Let_def
        readBooks_Stored)
qed

theorem C5_not_found_witness:
  "parseInt ''7'' = Some 7
   \<and> content (disk_with [dune, emma]) = Stored [dune, emma]
   \<and> 7 \<notin> book_id ` set [dune, emma]
   \<and> put_books (disk_with [dune, emma]) ''7'' (Some new_book_body) =
       ((disk_with [dune, emma])\<lparr>calls := [ReadFile]\<rparr>, (404, Error ''Book not found''))
   \<and> delete_books (disk_with [dune, emma]) ''7'' =
       ((disk_with [dune, emma])\<lparr>calls := [ReadFile]\<rparr>, (404, Error ''Book not found''))
   \<and> put_books (disk_with [dune, emma]) ''7'' None =
       (disk_with [dune, emma], (500, Error ''Failed to update book''))"
  using C5_not_found [of "''7''" 7 "disk_with [dune, emma]" "[dune, emma]" new_book_body]
  by (simp add: parseInt_7 sample_ids disk_with_def)

text \<open>
  Claim C6. A delete whose parsed id is the id of a record of the stored collection (the
  first such record, at index \<open>i\<close>) writes the collection without that one record, the
  others in their order, and answers 200 with the confirmation message and the record
  removed.
\<close>

theorem C6_delete:
  assumes "parseInt p = Some n"
    and "content d = Stored books"
    and "writable d"
    and "i < length books"
    and "book_id (books ! i) = n"
    and "\<forall>j<i. book_id (books ! j) \<noteq> n"
  shows "delete_books d p =
           (d\<lparr>content := Stored (take i books @ drop (Suc i) books),
              calls := calls d @ [ReadFile, WriteFile (take i books @ drop (Suc i) books)]\<rparr>,
            (200, Deleted ''Book deleted successfully'' (books ! i)))"
proof -
  have "findIndex (\<lambda>book. book_id book = n) books = Some i"
    using assms(4-6) by (intro findIndex_first) auto
  then show ?thesis
    using assms(1-3)
    by (simp add: delete_books_def Let_def readBooks_Stored writeBooks_writable)
qed

theorem C6_delete_witness:
  "parseInt ''2'' = Some 2
   \<and> content (disk_with [dune, emma, walden]) = Stored [dune, emma, walden]
   \<and> writable (disk_with [dune, emma, walden])
   \<and> book_id ([dune, emma, walden] ! 1) = 2
   \<and> book_id ([dune, emma, walden] ! 0) \<noteq> 2
   \<and> delete_books (disk_with [dune, emma, walden]) ''2'' =
       (\<lparr>content = Stored [dune, walden], writable = True,
         calls = [ReadFile, WriteFile [dune, walden]]\<rparr>,
        (200, Deleted ''Book deleted successfully'' emma))"
  using C6_delete [of "''2''" 2 "disk_with [dune, emma, walden]" "[dune, emma, walden]" 1]
  by (simp add: parseInt_2 sample_ids disk_with_def)




section \<open>Loading the store\<close>



section \<open>Ids\<close>

text \<open>
  Claim C9, as the source has it. On a stored collection whose ids are pairwise distinct,
  the collection that a single request leaves in the file has pairwise distinct ids:
  always for an update or a delete (and for the two reads), and for a create provided
  the largest existing id lies from \<open>- 2 ^ 53\<close> up to but not including \<open>2 ^ 53\<close>,
  where adding one to it is exact.
\<close>

theorem C9_distinct_ids:
  assumes "content d = Stored books"
    and "distinct (map book_id books)"
    and "is_create req \<and> books \<noteq> [] \<longrightarrow>
           - (2 ^ 53) \<le> Max (set (map book_id books)) \<and> Max (set (map book_id books)) < 2 ^ 53"
  shows "\<exists>books'. content (fst (handle d req)) = Stored books' \<and> distinct (map book_id books')"
proof (cases req)
  case GetBooks
  then show ?thesis
    using assms(1,2) by (simp add: get_books_def readBooks_Stored)
next
  case GetAvailable
  then show ?thesis
    using assms(1,2) by (simp add: get_books_available_def readBooks_Stored)
next
  case (Create req_body)
  with assms(3) have "newId books \<notin> book_id ` set books"
    by (intro newId_fresh) (simp add: is_create_def)
  then show ?thesis
    using post_books_content [OF assms(1), of req_body] assms(2) Create by auto
next
  case (Update p req_body)
  show ?thesis
    using put_books_content [OF assms(1), of p req_body] assms(2) Update
    by (auto simp: map_id_update assign_fields_id)
next
  case (Delete p)
  show ?thesis
    using delete_books_content [OF assms(1), of p] assms(2) Delete
    by (auto simp: distinct_remove_at take_map [symmetric] drop_map [symmetric]
        simp del: distinct_append)
qed

text \<open>A create on the ids 2, 12 and 1.\<close>

theorem C9_distinct_ids_witness:
  "content (disk_with [emma, ulysses, dune]) = Stored [emma, ulysses, dune]
   \<and> distinct (map book_id [emma, ulysses, dune])
   \<and> Max (set (map book_id [emma, ulysses, dune])) = 12
   \<and> (\<exists>books'. content (fst (handle (disk_with [emma, ulysses, dune])
                                  (Create (Some new_book_body)))) = Stored books'
          \<and> distinct (map book_id books'))"
  using C9_distinct_ids [of "disk_with [emma, ulysses, dune]" "[emma, ulysses, dune]"
      "Create (Some new_book_body)"]
  by (simp add: sample_ids disk_with_def)

text \<open>
  Claim C9 as written, for every collection with distinct ids, fails for a create on a
  collection whose only id is \<open>2 ^ 53\<close>: the new record gets \<open>2 ^ 53\<close> as well.
\<close>

theorem C9_counterexample:
  "distinct (map book_id [huge])
   \<and> content (fst (handle (disk_with [huge]) (Create (Some new_book_body)))) =
       Stored [huge, \<lparr>book_id = 9007199254740992, title = Some (JStr ''Kindred''),
                      author = Some (JStr ''Butler''), available = Some (JBool True)\<rparr>]
   \<and> \<not> distinct (map book_id
        [huge, \<lparr>book_id = 9007199254740992, title = Some (JStr ''Kindred''),
                 author = Some (JStr ''Butler''), available = Some (JBool True)\<rparr>])"
proof -
  have "content (fst (handle (disk_with [huge]) (Create (Some new_book_body)))) =
       Stored [huge, \<lparr>book_id = 9007199254740992, title = Some (JStr ''Kindred''),
                      author = Some (JStr ''Butler''), available = Some (JBool True)\<rparr>]"
    by (simp add: post_books_def destructure_Some new_book_body_def disk_with_def readBooks_Stored
        writeBooks_writable newId_huge Let_def)
  moreover have "book_id huge = 9007199254740992"
    by (simp add: huge_def)
  ultimately show ?thesis by simp
qed

text \<open>
  Claim C10. An update of an existing record (the first with the path id, at index
  \<open>i\<close>) leaves in the file a collection with the same ids at the same places and with
  every record other than the one at \<open>i\<close> as it was; the record it answers with has the
  path id; and the outcome depends on the body only through \<^verbatim>\<open>title\<close>,
  \<^verbatim>\<open>author\<close> and \<^verbatim>\<open>available\<close>, so that an \<^verbatim>\<open>id\<close> in the body changes nothing.
\<close>

theorem C10_update_frame:
  assumes "parseInt p = Some n"
    and "content d = Stored books"
    and "i < length books"
    and "book_id (books ! i) = n"
    and "\<forall>j<i. book_id (books ! j) \<noteq> n"
  shows "(\<exists>books'. content (fst (put_books d p req_body)) = Stored books'
            \<and> map book_id books' = map book_id books
            \<and> (\<forall>j<length books. j \<noteq> i \<longrightarrow> books' ! j = books ! j))
       \<and> (\<forall>r. snd (put_books d p req_body) = (200, OneBook r) \<longrightarrow> book_id r = n)
       \<and> (get_prop b' ''title'' = get_prop b ''title''
            \<and> get_prop b' ''author'' = get_prop b ''author''
            \<and> get_prop b' ''available'' = get_prop b ''available''
          \<longrightarrow> put_books d p (Some b') = put_books d p (Some b))"
proof (intro conjI)
  have fi: "findIndex (\<lambda>book. book_id book = n) books = Some i"
    using assms(3-5) by (intro findIndex_first) auto
  show "\<exists>books'. content (fst (put_books d p req_body)) = Stored books'
            \<and> map book_id books' = map book_id books
            \<and> (\<forall>j<length books. j \<noteq> i \<longrightarrow> books' ! j = books ! j)"
    using put_books_content [OF assms(2), of p req_body] assms(1) fi
    by (auto simp: map_id_update assign_fields_id)
  show "\<forall>r. snd (put_books d p req_body) = (200, OneBook r) \<longrightarrow> book_id r = n"
  proof (cases req_body)
    case None
    then show ?thesis by (simp add: put_books_None)
  next
    case (Some body)
    then show ?thesis
      using assms(1-4) fi
      by (cases "writable d")
        (auto simp: put_books_def destructure_Some Let_def readBooks_Stored writeBooks_writable
          writeBooks_readonly assign_fields_id)
  qed
  show "get_prop b' ''title'' = get_prop b ''title''
            \<and> get_prop b' ''author'' = get_prop b ''author''
            \<and> get_prop b' ''available'' = get_prop b ''available''
          \<longrightarrow> put_books d p (Some b') = put_books d p (Some b)"
    by (simp add: put_books_def destructure_Some)
qed

text \<open>An update of book 2 among three, with and without \<^verbatim>\<open>id: 99\<close> in the body.\<close>

theorem C10_update_frame_witness:
  "parseInt ''2'' = Some 2
   \<and> content (disk_with [dune, emma, walden]) = Stored [dune, emma, walden]
   \<and> book_id ([dune, emma, walden] ! 1) = 2
   \<and> book_id ([dune, emma, walden] ! 0) \<noteq> 2
   \<and> (\<exists>books'. content (fst (put_books (disk_with [dune, emma, walden]) ''2''
                      (Some (BodyObject [(''available'', JBool True)])))) = Stored books'
        \<and> map book_id books' = [1, 2, 3]
        \<and> books' ! 0 = dune \<and> books' ! 2 = walden)
   \<and> put_books (disk_with [dune, emma, walden]) ''2''
        (Some (BodyObject [(''id'', JNum 99), (''available'', JBool True)])) =
      put_books (disk_with [dune, emma, walden]) ''2'' (Some (BodyObject [(''available'', JBool True)]))"
proof -
  let ?d = "disk_with [dune, emma, walden]"
  let ?b = "BodyObject [(''available'', JBool True)]"
  let ?b' = "BodyObject [(''id'', JNum 99), (''available'', JBool True)]"
  have hyps: "parseInt ''2'' = Some 2" "content ?d = Stored [dune, emma, walden]"
    "1 < length [dune, emma, walden]" "book_id ([dune, emma, walden] ! 1) = 2"
    "\<forall>j<1. book_id ([dune, emma, walden] ! j) \<noteq> 2"
    by (simp_all add: parseInt_2 sample_ids disk_with_def)
  note frame = C10_update_frame [OF hyps, of "Some ?b" ?b' ?b]
  from frame obtain books' where books':
    "content (fst (put_books ?d ''2'' (Some ?b))) = Stored books'"
    "map book_id books' = map book_id [dune, emma, walden]"
    "\<forall>j<length [dune, emma, walden]. j \<noteq> 1 \<longrightarrow> books' ! j = [dune, emma, walden] ! j"
    by blast
  from books'(3) have "books' ! 0 = dune" "books' ! 2 = walden"
    by simp_all
  with books'(1,2) have "\<exists>books'. content (fst (put_books ?d ''2'' (Some ?b))) = Stored books'
        \<and> map book_id books' = [1, 2, 3] \<and> books' ! 0 = dune \<and> books' ! 2 = walden"
    by (simp add: sample_ids)
  moreover from frame have "put_books ?d ''2'' (Some ?b') = put_books ?d ''2'' (Some ?b)"
    by simp
  ultimately show ?thesis
    using hyps by (simp add: sample_ids)
qed

end
